theory Spec2Isabelle
  imports Main "HOL-Library.Word"
begin

unbundle bit_operations_syntax

section \<open>brcmfmac\_iovar: iovar access over nl80211 vendor commands\<close>

text \<open>
  A shallow embedding of \<^verbatim>\<open>src/brcmfmac_iovar.c\<close>. Conventions:
  \<^item> \<^verbatim>\<open>uint8_t\<close> is \<open>8 word\<close>, \<^verbatim>\<open>uint32_t\<close> and \<^verbatim>\<open>int32_t\<close> are \<open>32 word\<close>
    (the signed reading is \<open>sint\<close>); a conversion to \<^verbatim>\<open>int32_t\<close> keeps the low 32 bits.
  \<^item> \<^verbatim>\<open>size_t\<close> values are \<open>nat\<close>: they are lengths of objects that lie in memory, and
    the sums the program forms from them (a string length plus 1, plus 4, plus 20) stay
    below the size of the address space.
  \<^item> \<^verbatim>\<open>int\<close> error codes are \<open>int\<close>: they are stored, compared and returned, never
    computed with.
  \<^item> \<^verbatim>\<open>memcpy\<close> between an integer object and a byte buffer is in host byte order; the
    host is little-endian, as the source says where it decodes the response (``host byte
    order on ARM'').
  \<^item> A pointer that may be \<^verbatim>\<open>NULL\<close> is an \<open>option\<close>; the bytes behind it are a list.
\<close>

type_synonym byte = "8 word"
type_synonym u32 = "32 word"

subsection \<open>Constants\<close>

definition BROADCOM_OUI :: u32 where
  "BROADCOM_OUI = 0x001018"

definition BRCMF_VNDR_CMDS_DCMD :: u32 where
  "BRCMF_VNDR_CMDS_DCMD = 1"

definition BRCMF_C_GET_VAR :: u32 where
  "BRCMF_C_GET_VAR = 262"

definition BRCMF_C_SET_VAR :: u32 where
  "BRCMF_C_SET_VAR = 263"

definition BRCMF_NLATTR_LEN :: nat where
  "BRCMF_NLATTR_LEN = 1"

definition BRCMF_NLATTR_DATA :: nat where
  "BRCMF_NLATTR_DATA = 2"

text \<open>The errno values of \<^verbatim>\<open>errno.h\<close> on Linux (asm-generic, which ARM uses).\<close>

definition ENOMEM :: int where
  "ENOMEM = 12"

definition ENODATA :: int where
  "ENODATA = 61"

definition EINPROGRESS :: int where
  "EINPROGRESS = 115"

subsection \<open>Integer objects as bytes\<close>

text \<open>\<^verbatim>\<open>memcpy(dst, &x, sizeof(uint32_t))\<close>: the four bytes of a 32-bit object, lowest first.\<close>

definition le32 :: "u32 \<Rightarrow> byte list" where
  "le32 w = [ucast w, ucast (drop_bit 8 w), ucast (drop_bit 16 w), ucast (drop_bit 24 w)]"

text \<open>\<^verbatim>\<open>memcpy(&x, src, sizeof(uint32_t))\<close>: the 32-bit object made of the first four bytes.\<close>

definition load_le32 :: "byte list \<Rightarrow> u32" where
  "load_le32 bs = (case bs of
       b0 # b1 # b2 # b3 # _ \<Rightarrow>
         ucast b0 OR push_bit 8 (ucast b1) OR push_bit 16 (ucast b2) OR push_bit 24 (ucast b3)
     | _ \<Rightarrow> 0)"

subsection \<open>The vendor command header\<close>

text \<open>
  \<^verbatim>\<open>struct brcmf_vndr_dcmd_hdr\<close>: five 4-byte fields, so no padding and
  \<^verbatim>\<open>sizeof(hdr)\<close> is 20. The fields carry the prefix \<open>hdr_\<close> (\<open>set\<close> and \<open>len\<close>
  are taken); \<open>hdr_len\<close> is the \<^verbatim>\<open>int32_t\<close> field.
\<close>

record brcmf_vndr_dcmd_hdr =
  hdr_cmd :: u32
  hdr_len :: u32
  hdr_offset :: u32
  hdr_set :: u32
  hdr_magic :: u32

definition sizeof_hdr :: nat where
  "sizeof_hdr = 20"

text \<open>\<^verbatim>\<open>memcpy(vendor_data, &hdr, sizeof(hdr))\<close>: the struct as it lies in memory.\<close>

definition pack_hdr :: "brcmf_vndr_dcmd_hdr \<Rightarrow> byte list" where
  "pack_hdr h = le32 (hdr_cmd h) @ le32 (hdr_len h) @ le32 (hdr_offset h)
                @ le32 (hdr_set h) @ le32 (hdr_magic h)"

text \<open>
  Modelled from the spec: the reader of the packed header is the kernel driver, which is
  not part of this repository. The spec's data model fixes the layout it reads: a 20-byte
  record of the fields cmd, len, offset, set, magic in this order, 32 bits each; anything
  that is not 20 bytes long is not a header.
\<close>

definition unpack_hdr :: "byte list \<Rightarrow> brcmf_vndr_dcmd_hdr option" where
  "unpack_hdr bs = (if length bs = 20 then
       Some \<lparr>hdr_cmd = load_le32 bs, hdr_len = load_le32 (drop 4 bs),
             hdr_offset = load_le32 (drop 8 bs), hdr_set = load_le32 (drop 12 bs),
             hdr_magic = load_le32 (drop 16 bs)\<rparr>
     else None)"

text \<open>Lines 276 to 281 of \<^verbatim>\<open>send_vendor_cmd\<close>: the header it fills in.\<close>

definition make_hdr :: "u32 \<Rightarrow> int \<Rightarrow> u32 \<Rightarrow> brcmf_vndr_dcmd_hdr" where
  "make_hdr cmd is_set ret_len =
     \<lparr>hdr_cmd = cmd, hdr_len = ret_len, hdr_offset = word_of_nat sizeof_hdr,
      hdr_set = (if is_set \<noteq> 0 then 1 else 0), hdr_magic = 0\<rparr>"

text \<open>
  Lines 269 to 284: the vendor data blob, header then \<open>payload_len\<close> bytes of the payload.
  Both callers pass the length of the payload they built.
\<close>

definition vendor_blob :: "u32 \<Rightarrow> int \<Rightarrow> byte list \<Rightarrow> nat \<Rightarrow> u32 \<Rightarrow> byte list" where
  "vendor_blob cmd is_set payload payload_len ret_len =
     pack_hdr (make_hdr cmd is_set ret_len) @ take payload_len payload"

subsection \<open>The response state and the four callbacks\<close>

text \<open>
  \<^verbatim>\<open>struct iovar_response\<close>: \<open>resp_data\<close> is the malloc'ed buffer (\<open>None\<close> is
  \<^verbatim>\<open>NULL\<close>), \<open>resp_len\<close> its recorded length, \<open>resp_error\<close> the error code.
\<close>

record iovar_response =
  resp_data :: "byte list option"
  resp_len :: nat
  resp_error :: int

text \<open>What a callback returns to libnl.\<close>

datatype nl_cb_action = NL_OK | NL_SKIP | NL_STOP

definition error_handler :: "int \<Rightarrow> iovar_response \<Rightarrow> nl_cb_action \<times> iovar_response" where
  "error_handler err resp = (NL_STOP, resp\<lparr>resp_error := err\<rparr>)"

definition finish_handler :: "iovar_response \<Rightarrow> nl_cb_action \<times> iovar_response" where
  "finish_handler resp = (NL_SKIP, resp\<lparr>resp_error := 0\<rparr>)"

definition ack_handler :: "iovar_response \<Rightarrow> nl_cb_action \<times> iovar_response" where
  "ack_handler resp = (NL_STOP, resp\<lparr>resp_error := 0\<rparr>)"

text \<open>
  A netlink attribute is a type and a payload. Of a received message the handler uses one
  thing: the attribute \<^verbatim>\<open>NL80211_ATTR_VENDOR_DATA\<close> as \<^verbatim>\<open>nla_parse\<close> finds it, that is,
  the sequence of attributes nested in it, or nothing when the message has none.
\<close>

datatype nlattr = Nlattr (nla_type: nat) (nla_data: "byte list")

record nl_msg =
  attr_vendor_data :: "nlattr list option"

text \<open>
  The body of \<^verbatim>\<open>nla_for_each_nested\<close> (lines 187 to 198). \<open>malloc_ok\<close> says whether
  the \<^verbatim>\<open>malloc\<close> of line 190 returns a buffer. The first attribute of type
  \<^verbatim>\<open>BRCMF_NLATTR_DATA\<close> ends the loop (\<^verbatim>\<open>break\<close>).
\<close>

fun scan_nested :: "bool \<Rightarrow> nlattr list \<Rightarrow> iovar_response \<Rightarrow> iovar_response" where
  "scan_nested malloc_ok [] resp = resp"
| "scan_nested malloc_ok (a # as) resp =
     (if nla_type a = BRCMF_NLATTR_DATA then
        (let resp1 = resp\<lparr>resp_len := length (nla_data a)\<rparr> in
         if malloc_ok then resp1\<lparr>resp_data := Some (take (resp_len resp1) (nla_data a))\<rparr>
         else resp1\<lparr>resp_data := None, resp_error := - ENOMEM\<rparr>)
      else scan_nested malloc_ok as resp)"

definition response_handler :: "bool \<Rightarrow> nl_msg \<Rightarrow> iovar_response \<Rightarrow> nl_cb_action \<times> iovar_response" where
  "response_handler malloc_ok msg resp =
     (case attr_vendor_data msg of
        None \<Rightarrow> (NL_SKIP, resp\<lparr>resp_error := - ENODATA\<rparr>)
      | Some nested \<Rightarrow> (NL_SKIP, scan_nested malloc_ok nested resp))"

subsection \<open>The receive loop\<close>

text \<open>
  What the kernel delivers: an error message with its code, the end of a multipart
  message, an acknowledgement, or a valid message (with the outcome of the allocation its
  handling asks for). libnl calls the callback registered for the kind of message
  (lines 310 to 313).
\<close>

datatype nl_event = EvError int | EvFinish | EvAck | EvValid nl_msg bool

fun dispatch :: "nl_event \<Rightarrow> iovar_response \<Rightarrow> nl_cb_action \<times> iovar_response" where
  "dispatch (EvError err) resp = error_handler err resp"
| "dispatch EvFinish resp = finish_handler resp"
| "dispatch EvAck resp = ack_handler resp"
| "dispatch (EvValid msg malloc_ok) resp = response_handler malloc_ok msg resp"

text \<open>
  One call of \<^verbatim>\<open>nl_recvmsgs\<close> handles the messages of one read in their order; a
  callback that returns \<^verbatim>\<open>NL_STOP\<close> ends the call and drops the rest, any other
  return value goes on to the next message. A call that handles nothing (a failed read)
  is the empty list.
\<close>

fun nl_recvmsgs :: "nl_event list \<Rightarrow> iovar_response \<Rightarrow> iovar_response" where
  "nl_recvmsgs [] resp = resp"
| "nl_recvmsgs (e # es) resp =
     (case dispatch e resp of
        (NL_STOP, resp') \<Rightarrow> resp'
      | (_, resp') \<Rightarrow> nl_recvmsgs es resp')"

text \<open>
  Lines 324 to 326: \<^verbatim>\<open>while (resp->error == -EINPROGRESS) nl_recvmsgs(sk, cb)\<close>. The
  argument lists what each successive call of \<^verbatim>\<open>nl_recvmsgs\<close> handles. The socket
  blocks, so when nothing more arrives while the state is still in progress the loop never
  ends: the result is \<open>None\<close>.
\<close>

fun recv_loop :: "nl_event list list \<Rightarrow> iovar_response \<Rightarrow> iovar_response option" where
  "recv_loop [] resp = (if resp_error resp = - EINPROGRESS then None else Some resp)"
| "recv_loop (p # ps) resp =
     (if resp_error resp = - EINPROGRESS then recv_loop ps (nl_recvmsgs p resp) else Some resp)"

subsection \<open>send\_vendor\_cmd\<close>

text \<open>
  Everything outside the program that one call of \<^verbatim>\<open>send_vendor_cmd\<close> depends on: whether
  each allocation succeeds, what \<^verbatim>\<open>genl_connect\<close>, \<^verbatim>\<open>genl_ctrl_resolve\<close> and
  \<^verbatim>\<open>nl_send_auto\<close> return, and what the calls of \<^verbatim>\<open>nl_recvmsgs\<close> deliver.
\<close>

record nl_env =
  socket_alloc_ok :: bool
  connect_ret :: int
  resolve_ret :: int
  vendor_data_alloc_ok :: bool
  msg_alloc_ok :: bool
  cb_alloc_ok :: bool
  send_ret :: int
  pumps :: "nl_event list list"

text \<open>
  The values handed to \<^verbatim>\<open>nla_put_u32\<close> and \<^verbatim>\<open>nla_put\<close> for the
  \<^verbatim>\<open>NL80211_CMD_VENDOR\<close> message (lines 298 to 301).
\<close>

record vendor_request =
  req_ifindex :: u32
  req_vendor_id :: u32
  req_vendor_subcmd :: u32
  req_vendor_data :: "byte list"

text \<open>\<^verbatim>\<open>memset(resp, 0, sizeof(*resp)); resp->error = -EINPROGRESS\<close>.\<close>

definition resp_init :: iovar_response where
  "resp_init = \<lparr>resp_data = None, resp_len = 0, resp_error = - EINPROGRESS\<rparr>"

text \<open>
  The result is \<open>None\<close> when the call never returns, else the returned \<^verbatim>\<open>int\<close>, the
  response state left behind in \<^verbatim>\<open>*resp\<close>, and the request the message was built
  from when \<^verbatim>\<open>nl_send_auto\<close> is called (\<open>None\<close> when the call ends before it sends).
\<close>

definition send_vendor_cmd ::
  "nl_env \<Rightarrow> int \<Rightarrow> u32 \<Rightarrow> int \<Rightarrow> byte list \<Rightarrow> nat \<Rightarrow> u32
     \<Rightarrow> (int \<times> iovar_response \<times> vendor_request option) option" where
  "send_vendor_cmd env ifindex cmd is_set payload payload_len ret_len =
     (if \<not> socket_alloc_ok env then Some (- ENOMEM, resp_init, None)
      else if connect_ret env < 0 then Some (connect_ret env, resp_init, None)
      else if resolve_ret env < 0 then Some (resolve_ret env, resp_init, None)
      else if \<not> vendor_data_alloc_ok env then Some (- ENOMEM, resp_init, None)
      else if \<not> msg_alloc_ok env then Some (- ENOMEM, resp_init, None)
      else if \<not> cb_alloc_ok env then Some (- ENOMEM, resp_init, None)
      else
        (let req = \<lparr>req_ifindex = word_of_int ifindex, req_vendor_id = BROADCOM_OUI,
                    req_vendor_subcmd = BRCMF_VNDR_CMDS_DCMD,
                    req_vendor_data = vendor_blob cmd is_set payload payload_len ret_len\<rparr>
         in if send_ret env < 0 then Some (send_ret env, resp_init, Some req)
            else (case recv_loop (pumps env) resp_init of
                    None \<Rightarrow> None
                  | Some resp \<Rightarrow> Some (resp_error resp, resp, Some req))))"

subsection \<open>The iovar codec\<close>

text \<open>
  A \<^verbatim>\<open>const char *\<close> argument is given as the characters the caller supplies; C reads it
  up to the first NUL. \<open>c_string\<close> is that part with its terminator as bytes, the
  \<open>strlen s + 1\<close> bytes that \<^verbatim>\<open>memcpy(dst, s, strlen(s) + 1)\<close> copies.
\<close>

definition strlen :: "string \<Rightarrow> nat" where
  "strlen s = length (takeWhile (\<lambda>c. c \<noteq> CHR 0x00) s)"

definition c_string :: "string \<Rightarrow> byte list" where
  "c_string s = map of_char (takeWhile (\<lambda>c. c \<noteq> CHR 0x00) s) @ [0]"

text \<open>Line 355: \<^verbatim>\<open>int32_t ret_len = name_len > 256 ? name_len + 4 : 256\<close>.\<close>

definition get_ret_len :: "nat \<Rightarrow> u32" where
  "get_ret_len name_len = (if name_len > 256 then word_of_nat (name_len + 4) else 256)"

text \<open>How a call of a codec function ends.\<close>

datatype 'a outcome = Returns 'a | Blocks | ReadsOutOfBounds

text \<open>Lines 351 to 360: the call of the transport that \<^verbatim>\<open>get_iovar_int\<close> makes.\<close>

definition get_iovar_call ::
  "nl_env \<Rightarrow> int \<Rightarrow> string \<Rightarrow> (int \<times> iovar_response \<times> vendor_request option) option" where
  "get_iovar_call env ifindex iovar =
     (let name_len = strlen iovar + 1;
          ret_len = get_ret_len name_len
      in send_vendor_cmd env ifindex BRCMF_C_GET_VAR 0 (c_string iovar) name_len ret_len)"

text \<open>
  \<^verbatim>\<open>get_iovar_int\<close>. The result pairs the returned \<^verbatim>\<open>int\<close> with what was written to
  \<^verbatim>\<open>*value\<close> (\<open>None\<close>: nothing was written). The \<^verbatim>\<open>memcpy\<close> of line 369 reads 4 bytes
  of the buffer; reading more than the buffer holds is \<open>ReadsOutOfBounds\<close>.
\<close>

definition get_iovar_int :: "nl_env \<Rightarrow> int \<Rightarrow> string \<Rightarrow> (int \<times> u32 option) outcome" where
  "get_iovar_int env ifindex iovar =
     (case get_iovar_call env ifindex iovar of
        None \<Rightarrow> Blocks
      | Some (ret, resp, req) \<Rightarrow>
          if ret \<noteq> 0 then Returns (ret, None)
          else (case resp_data resp of
                  Some buf \<Rightarrow>
                    if resp_len resp \<ge> 4 then
                      (if length buf < 4 then ReadsOutOfBounds
                       else Returns (0, Some (load_le32 (take 4 buf))))
                    else Returns (- ENODATA, None)
                | None \<Rightarrow> Returns (- ENODATA, None)))"

text \<open>Lines 391 to 402 of \<^verbatim>\<open>set_iovar_int\<close>: the payload it packs.\<close>

definition set_iovar_payload :: "string \<Rightarrow> u32 \<Rightarrow> byte list" where
  "set_iovar_payload iovar v = c_string iovar @ le32 v"

text \<open>Lines 391, 392 and 404 to 406: the call of the transport that \<^verbatim>\<open>set_iovar_int\<close> makes.\<close>

definition set_iovar_call ::
  "nl_env \<Rightarrow> int \<Rightarrow> string \<Rightarrow> u32 \<Rightarrow> (int \<times> iovar_response \<times> vendor_request option) option" where
  "set_iovar_call env ifindex iovar v =
     (let name_len = strlen iovar + 1;
          payload_len = name_len + 4
      in send_vendor_cmd env ifindex BRCMF_C_SET_VAR 1 (set_iovar_payload iovar v)
           payload_len (word_of_nat payload_len))"

text \<open>
  \<^verbatim>\<open>set_iovar_int\<close>; \<open>payload_alloc_ok\<close> says whether the \<^verbatim>\<open>calloc\<close> of line 396
  returns a buffer.
\<close>

definition set_iovar_int :: "nl_env \<Rightarrow> bool \<Rightarrow> int \<Rightarrow> string \<Rightarrow> u32 \<Rightarrow> int outcome" where
  "set_iovar_int env payload_alloc_ok ifindex iovar v =
     (if \<not> payload_alloc_ok then Returns (- ENOMEM)
      else (case set_iovar_call env ifindex iovar v of
              None \<Rightarrow> Blocks
            | Some (ret, resp, req) \<Rightarrow> Returns ret))"

subsection \<open>Notions used to state the properties\<close>


text \<open>Every step before the receive loop succeeds.\<close>

definition transport_ready :: "nl_env \<Rightarrow> bool" where
  "transport_ready env =
     (socket_alloc_ok env \<and> 0 \<le> connect_ret env \<and> 0 \<le> resolve_ret env
      \<and> vendor_data_alloc_ok env \<and> msg_alloc_ok env \<and> cb_alloc_ok env \<and> 0 \<le> send_ret env)"

text \<open>
  The events that are handled, in their order: within one call of \<^verbatim>\<open>nl_recvmsgs\<close> up to
  the first callback that returns \<^verbatim>\<open>NL_STOP\<close>, and over the loop up to the first call that
  leaves the in-progress state.
\<close>

fun handled_in_pump :: "nl_event list \<Rightarrow> iovar_response \<Rightarrow> nl_event list" where
  "handled_in_pump [] resp = []"
| "handled_in_pump (e # es) resp =
     (case dispatch e resp of
        (NL_STOP, resp') \<Rightarrow> [e]
      | (_, resp') \<Rightarrow> e # handled_in_pump es resp')"

fun handled :: "nl_event list list \<Rightarrow> iovar_response \<Rightarrow> nl_event list" where
  "handled [] resp = []"
| "handled (p # ps) resp =
     (if resp_error resp = - EINPROGRESS
      then handled_in_pump p resp @ handled ps (nl_recvmsgs p resp) else [])"

text \<open>
  What an event delivers: a valid message whose vendor data holds a data sub-attribute
  delivers that sub-attribute's bytes when the allocation succeeds and an absent buffer
  when it fails; every other event delivers nothing.
\<close>

fun delivered :: "nl_event \<Rightarrow> byte list option option" where
  "delivered (EvError err) = None"
| "delivered EvFinish = None"
| "delivered EvAck = None"
| "delivered (EvValid msg malloc_ok) =
     (case attr_vendor_data msg of
        None \<Rightarrow> None
      | Some nested \<Rightarrow>
          (case find (\<lambda>a. nla_type a = BRCMF_NLATTR_DATA) nested of
             None \<Rightarrow> None
           | Some a \<Rightarrow> Some (if malloc_ok then Some (nla_data a) else None)))"

text \<open>The buffer left by the last event that delivered, starting from \<open>buf\<close>.\<close>

fun buffer_after :: "nl_event list \<Rightarrow> byte list option \<Rightarrow> byte list option" where
  "buffer_after [] buf = buf"
| "buffer_after (e # es) buf =
     buffer_after es (case delivered e of None \<Rightarrow> buf | Some buf' \<Rightarrow> buf')"

text \<open>
  Where the names come from. \<^verbatim>\<open>get_iovar_int\<close> and \<^verbatim>\<open>set_iovar_int\<close> are static and
  each is called once, from \<^verbatim>\<open>main\<close> (lines 474 and 489), with \<^verbatim>\<open>argv[3]\<close>. Linux admits
  no argument string longer than 32 pages, terminator included: 131072 bytes with the
  4 KiB pages of the ARM targets.
\<close>

definition MAX_ARG_STRLEN :: nat where
  "MAX_ARG_STRLEN = 131072"

text \<open>Environments in which every step before the receive loop succeeds.\<close>

definition env_with :: "nl_event list list \<Rightarrow> nl_env" where
  "env_with ps =
     \<lparr>socket_alloc_ok = True, connect_ret = 0, resolve_ret = 28, vendor_data_alloc_ok = True,
      msg_alloc_ok = True, cb_alloc_ok = True, send_ret = 36, pumps = ps\<rparr>"

text \<open>A valid message whose vendor data holds one data sub-attribute with these bytes.\<close>

definition data_msg :: "byte list \<Rightarrow> nl_msg" where
  "data_msg bs = \<lparr>attr_vendor_data = Some [Nlattr BRCMF_NLATTR_DATA bs]\<rparr>"

section \<open>Properties\<close>

subsection \<open>Bytes of integer objects\<close>

lemma length_le32: "length (le32 w) = 4"
  by (simp add: le32_def)

lemma load_le32_le32: "load_le32 (le32 w @ rest) = w"
  unfolding load_le32_def le32_def
  apply simp
  apply (rule bit_word_eqI)
  apply (auto simp add: bit_simps)
  subgoal for n by (cases "n < 24") auto
  done

lemma base256:
  fixes x :: nat
  shows "x mod 256 + 256 * (x div 256 mod 256) + 65536 * (x div 65536 mod 256)
        + 16777216 * (x div 16777216) = x"
proof -
  define a where "a = x div 256"
  define b where "b = a div 256"
  define c where "c = b div 256"
  have xa: "x = x mod 256 + 256 * a" by (simp add: a_def)
  have ab: "a = a mod 256 + 256 * b" by (simp add: b_def)
  have bc: "b = b mod 256 + 256 * c" by (simp add: c_def)
  have b2: "x div 65536 = b" by (simp add: a_def b_def div_mult2_eq)
  have c2: "x div 16777216 = c" by (simp add: a_def b_def c_def div_mult2_eq)
  have "x mod 256 + 256 * (a mod 256) + 65536 * (b mod 256) + 16777216 * c = x"
    using xa ab bc by linarith
  then show ?thesis by (simp add: b2 c2 flip: a_def)
qed

text \<open>The bytes of \<open>le32 v\<close> are the base-256 digits of \<open>v\<close>, lowest first.\<close>

lemma le32_value:
  "unat (le32 v ! 0) + 256 * unat (le32 v ! 1) + 65536 * unat (le32 v ! 2)
     + 16777216 * unat (le32 v ! 3) = unat v"
proof -
  have "unat v < 4294967296"
    using unsigned_less [of v, where 'a = nat] by simp
  then have "unat v div 16777216 < 256" by simp
  then have m: "unat v div 16777216 mod 256 = unat v div 16777216" by simp
  have bytes: "unat (le32 v ! 0) = unat v mod 256" "unat (le32 v ! 1) = unat v div 256 mod 256"
    "unat (le32 v ! 2) = unat v div 65536 mod 256"
    "unat (le32 v ! 3) = unat v div 16777216 mod 256"
    by (simp_all add: le32_def unsigned_ucast_eq unat_drop_bit_eq take_bit_eq_mod
        drop_bit_eq_div unat_div_distrib)
  show ?thesis
    unfolding bytes m by (rule base256)
qed

lemma length_pack_hdr: "length (pack_hdr h) = 20"
  by (simp add: pack_hdr_def length_le32)

subsection \<open>Strings\<close>

lemma strlen_btc_mode: "strlen ''btc_mode'' = 8"
  by (simp add: strlen_def)

lemma c_string_btc_mode:
  "c_string ''btc_mode'' = [0x62, 0x74, 0x63, 0x5f, 0x6d, 0x6f, 0x64, 0x65, 0]"
  by (simp add: c_string_def)

lemma length_c_string: "length (c_string s) = strlen s + 1"
  by (simp add: c_string_def strlen_def)

lemma strlen_replicate: "c \<noteq> CHR 0x00 \<Longrightarrow> strlen (replicate n c) = n"
  by (simp add: strlen_def takeWhile_replicate)

subsection \<open>The request that is sent\<close>

lemma send_vendor_cmd_req:
  "send_vendor_cmd env ifindex cmd is_set payload payload_len ret_len = Some (ret, resp, Some req)
   \<Longrightarrow> req_vendor_data req = vendor_blob cmd is_set payload payload_len ret_len"
  by (auto simp add: send_vendor_cmd_def Let_def split: if_splits option.splits)

lemma get_call_req:
  "get_iovar_call env ifindex iovar = Some (ret, resp, Some req) \<Longrightarrow>
   req_vendor_data req =
     vendor_blob BRCMF_C_GET_VAR 0 (c_string iovar) (strlen iovar + 1)
       (get_ret_len (strlen iovar + 1))"
  by (simp add: get_iovar_call_def Let_def send_vendor_cmd_req)

lemma set_call_req:
  "set_iovar_call env ifindex iovar v = Some (ret, resp, Some req) \<Longrightarrow>
   req_vendor_data req =
     vendor_blob BRCMF_C_SET_VAR 1 (set_iovar_payload iovar v) (strlen iovar + 1 + 4)
       (word_of_nat (strlen iovar + 1 + 4))"
  by (simp add: set_iovar_call_def Let_def send_vendor_cmd_req)

lemma blob_offset:
  "take 4 (drop 8 (vendor_blob cmd is_set payload payload_len ret_len)) = [20, 0, 0, 0]"
  by (simp add: vendor_blob_def pack_hdr_def make_hdr_def sizeof_hdr_def length_le32)
     (simp add: le32_def)

lemma blob_offset_value:
  "load_le32 (drop 8 (vendor_blob cmd is_set payload payload_len ret_len)) = word_of_nat sizeof_hdr"
  by (simp add: vendor_blob_def pack_hdr_def make_hdr_def length_le32 load_le32_le32)

lemma blob_len:
  "load_le32 (drop 4 (vendor_blob cmd is_set payload payload_len ret_len)) = ret_len"
  by (simp add: vendor_blob_def pack_hdr_def make_hdr_def length_le32 load_le32_le32)

text \<open>Two runs in which the kernel answers with an acknowledgement only.\<close>

lemma ack_only_set:
  "set_iovar_call (env_with [[EvAck]]) 3 ''btc_mode'' 4 =
   Some (0, \<lparr>resp_data = None, resp_len = 0, resp_error = 0\<rparr>,
     Some \<lparr>req_ifindex = 3, req_vendor_id = 0x1018, req_vendor_subcmd = 1,
       req_vendor_data = [7, 1, 0, 0, 13, 0, 0, 0, 20, 0, 0, 0, 1, 0, 0, 0, 0, 0, 0, 0,
                          0x62, 0x74, 0x63, 0x5f, 0x6d, 0x6f, 0x64, 0x65, 0, 4, 0, 0, 0]\<rparr>)"
  by (simp add: set_iovar_call_def send_vendor_cmd_def env_with_def Let_def strlen_btc_mode
      set_iovar_payload_def c_string_btc_mode vendor_blob_def pack_hdr_def make_hdr_def le32_def
      sizeof_hdr_def resp_init_def ack_handler_def EINPROGRESS_def BRCMF_C_SET_VAR_def
      BROADCOM_OUI_def BRCMF_VNDR_CMDS_DCMD_def)

lemma ack_only_get:
  "get_iovar_call (env_with [[EvAck]]) 3 ''btc_mode'' =
   Some (0, \<lparr>resp_data = None, resp_len = 0, resp_error = 0\<rparr>,
     Some \<lparr>req_ifindex = 3, req_vendor_id = 0x1018, req_vendor_subcmd = 1,
       req_vendor_data = [6, 1, 0, 0, 0, 1, 0, 0, 20, 0, 0, 0, 0, 0, 0, 0, 0, 0, 0, 0,
                          0x62, 0x74, 0x63, 0x5f, 0x6d, 0x6f, 0x64, 0x65, 0]\<rparr>)"
  by (simp add: get_iovar_call_def send_vendor_cmd_def env_with_def Let_def strlen_btc_mode
      get_ret_len_def c_string_btc_mode vendor_blob_def pack_hdr_def make_hdr_def le32_def
      sizeof_hdr_def resp_init_def ack_handler_def EINPROGRESS_def BRCMF_C_GET_VAR_def
      BROADCOM_OUI_def BRCMF_VNDR_CMDS_DCMD_def)

text \<open>
  C8. Packing a header and unpacking the 20 bytes gives back every field: for all values
  of cmd, len, offset, set and magic, \<open>unpack_hdr\<close> after \<open>pack_hdr\<close> is the identity.
\<close>

theorem hdr_pack_unpack: "unpack_hdr (pack_hdr h) = Some h"
proof -
  have d4: "drop 4 (pack_hdr h)
      = le32 (hdr_len h) @ le32 (hdr_offset h) @ le32 (hdr_set h) @ le32 (hdr_magic h)"
    by (simp add: pack_hdr_def length_le32)
  have d8: "drop 8 (pack_hdr h) = le32 (hdr_offset h) @ le32 (hdr_set h) @ le32 (hdr_magic h)"
    by (simp add: pack_hdr_def length_le32)
  have d12: "drop 12 (pack_hdr h) = le32 (hdr_set h) @ le32 (hdr_magic h)"
    by (simp add: pack_hdr_def length_le32)
  have d16: "drop 16 (pack_hdr h) = le32 (hdr_magic h) @ []"
    by (simp add: pack_hdr_def length_le32)
  have c: "load_le32 (pack_hdr h) = hdr_cmd h"
    by (simp add: pack_hdr_def load_le32_le32)
  show ?thesis
    unfolding unpack_hdr_def
    by (simp only: length_pack_hdr d4 d8 d12 d16 c load_le32_le32 if_True) simp
qed

text \<open>
  C4. Whatever the iovar name, for a get and for a set alike, the offset field of the
  header in the request that is sent (bytes 8 to 11 of the vendor data) holds 20, the size
  of the packed header, in which the payload begins.
\<close>

theorem header_offset_is_header_size:
  "(get_iovar_call env ifindex iovar = Some (ret, resp, Some req) \<longrightarrow>
      take 4 (drop 8 (req_vendor_data req)) = [20, 0, 0, 0]
      \<and> load_le32 (drop 8 (req_vendor_data req)) = word_of_nat sizeof_hdr
      \<and> drop sizeof_hdr (req_vendor_data req) = c_string iovar)
   \<and> (set_iovar_call env' ifindex' iovar' v = Some (ret', resp', Some req') \<longrightarrow>
      take 4 (drop 8 (req_vendor_data req')) = [20, 0, 0, 0]
      \<and> load_le32 (drop 8 (req_vendor_data req')) = word_of_nat sizeof_hdr
      \<and> drop sizeof_hdr (req_vendor_data req') = set_iovar_payload iovar' v)
   \<and> length (pack_hdr (make_hdr cmd is_set ret_len)) = sizeof_hdr
   \<and> hdr_offset (make_hdr cmd is_set ret_len) = word_of_nat sizeof_hdr"
proof -
  have g: "drop sizeof_hdr (vendor_blob c i (c_string iovar) (strlen iovar + 1) r) = c_string iovar"
    for c i r
    by (simp add: vendor_blob_def sizeof_hdr_def length_pack_hdr length_c_string)
  have s: "drop sizeof_hdr (vendor_blob c i (set_iovar_payload iovar' v) (strlen iovar' + 1 + 4) r)
      = set_iovar_payload iovar' v" for c i r
    by (simp add: vendor_blob_def sizeof_hdr_def length_pack_hdr set_iovar_payload_def
        length_c_string length_le32)
  have get: "take 4 (drop 8 (req_vendor_data req)) = [20, 0, 0, 0]
      \<and> load_le32 (drop 8 (req_vendor_data req)) = word_of_nat sizeof_hdr
      \<and> drop sizeof_hdr (req_vendor_data req) = c_string iovar"
    if "get_iovar_call env ifindex iovar = Some (ret, resp, Some req)"
    unfolding get_call_req [OF that] by (simp only: blob_offset blob_offset_value g)
  have set: "take 4 (drop 8 (req_vendor_data req')) = [20, 0, 0, 0]
      \<and> load_le32 (drop 8 (req_vendor_data req')) = word_of_nat sizeof_hdr
      \<and> drop sizeof_hdr (req_vendor_data req') = set_iovar_payload iovar' v"
    if "set_iovar_call env' ifindex' iovar' v = Some (ret', resp', Some req')"
    unfolding set_call_req [OF that] by (simp only: blob_offset blob_offset_value s)
  have size: "length (pack_hdr (make_hdr cmd is_set ret_len)) = sizeof_hdr"
    by (simp add: length_pack_hdr sizeof_hdr_def)
  have field: "hdr_offset (make_hdr cmd is_set ret_len) = word_of_nat sizeof_hdr"
    by (simp add: make_hdr_def)
  from get set size field show ?thesis by blast
qed

theorem header_offset_is_header_size_witness:
  "get_iovar_call (env_with [[EvAck]]) 3 ''btc_mode'' =
     Some (0, \<lparr>resp_data = None, resp_len = 0, resp_error = 0\<rparr>,
       Some \<lparr>req_ifindex = 3, req_vendor_id = 0x1018, req_vendor_subcmd = 1,
         req_vendor_data = [6, 1, 0, 0, 0, 1, 0, 0, 20, 0, 0, 0, 0, 0, 0, 0, 0, 0, 0, 0,
                            0x62, 0x74, 0x63, 0x5f, 0x6d, 0x6f, 0x64, 0x65, 0]\<rparr>)
   \<and> set_iovar_call (env_with [[EvAck]]) 3 ''btc_mode'' 4 =
     Some (0, \<lparr>resp_data = None, resp_len = 0, resp_error = 0\<rparr>,
       Some \<lparr>req_ifindex = 3, req_vendor_id = 0x1018, req_vendor_subcmd = 1,
         req_vendor_data = [7, 1, 0, 0, 13, 0, 0, 0, 20, 0, 0, 0, 1, 0, 0, 0, 0, 0, 0, 0,
                            0x62, 0x74, 0x63, 0x5f, 0x6d, 0x6f, 0x64, 0x65, 0, 4, 0, 0, 0]\<rparr>)
   \<and> take 4 (drop 8 [6, 1, 0, 0, 0, 1, 0, 0, 20, 0, 0, 0, 0, 0, 0, 0, 0, 0, 0, 0,
                       0x62, 0x74, 0x63, 0x5f, 0x6d, 0x6f, 0x64, 0x65, 0 :: byte]) = [20, 0, 0, 0]
   \<and> take 4 (drop 8 [7, 1, 0, 0, 13, 0, 0, 0, 20, 0, 0, 0, 1, 0, 0, 0, 0, 0, 0, 0,
                       0x62, 0x74, 0x63, 0x5f, 0x6d, 0x6f, 0x64, 0x65, 0, 4, 0, 0, 0 :: byte])
       = [20, 0, 0, 0]"
  using ack_only_get ack_only_set
    header_offset_is_header_size [of "env_with [[EvAck]]" 3 "''btc_mode''" 0
      "\<lparr>resp_data = None, resp_len = 0, resp_error = 0\<rparr>"
      "\<lparr>req_ifindex = 3, req_vendor_id = 0x1018, req_vendor_subcmd = 1,
         req_vendor_data = [6, 1, 0, 0, 0, 1, 0, 0, 20, 0, 0, 0, 0, 0, 0, 0, 0, 0, 0, 0,
                            0x62, 0x74, 0x63, 0x5f, 0x6d, 0x6f, 0x64, 0x65, 0]\<rparr>"
      "env_with [[EvAck]]" 3 "''btc_mode''" 4 0
      "\<lparr>resp_data = None, resp_len = 0, resp_error = 0\<rparr>"
      "\<lparr>req_ifindex = 3, req_vendor_id = 0x1018, req_vendor_subcmd = 1,
         req_vendor_data = [7, 1, 0, 0, 13, 0, 0, 0, 20, 0, 0, 0, 1, 0, 0, 0, 0, 0, 0, 0,
                            0x62, 0x74, 0x63, 0x5f, 0x6d, 0x6f, 0x64, 0x65, 0, 4, 0, 0, 0]\<rparr>"]
  by simp

subsection \<open>The payload of a write\<close>

text \<open>
  C6. For every name and every 32-bit value the payload of \<^verbatim>\<open>set_iovar_int\<close> is the name,
  one zero byte, then the four bytes of the value, lowest first, with nothing in between:
  its length is the length of the name with its terminator plus 4, and the request carries
  all of it after the header.
\<close>

theorem set_iovar_payload_layout:
  "length (set_iovar_payload iovar v) = strlen iovar + 1 + 4
   \<and> take (strlen iovar) (set_iovar_payload iovar v)
       = map of_char (takeWhile (\<lambda>c. c \<noteq> CHR 0x00) iovar)
   \<and> set_iovar_payload iovar v ! strlen iovar = 0
   \<and> drop (strlen iovar + 1) (set_iovar_payload iovar v) = le32 v
   \<and> load_le32 (drop (strlen iovar + 1) (set_iovar_payload iovar v)) = v
   \<and> unat (le32 v ! 0) + 256 * unat (le32 v ! 1) + 65536 * unat (le32 v ! 2)
       + 16777216 * unat (le32 v ! 3) = unat v
   \<and> (set_iovar_call env ifindex iovar v = Some (ret, resp, Some req) \<longrightarrow>
        drop 20 (req_vendor_data req) = set_iovar_payload iovar v)"
proof -
  let ?n = "map of_char (takeWhile (\<lambda>c. c \<noteq> CHR 0x00) iovar) :: byte list"
  have p: "set_iovar_payload iovar v = ?n @ [0] @ le32 v"
    by (simp add: set_iovar_payload_def c_string_def)
  have n: "length (takeWhile (\<lambda>c. c \<noteq> CHR 0x00) iovar) = strlen iovar"
    by (simp add: strlen_def)
  have 1: "length (set_iovar_payload iovar v) = strlen iovar + 1 + 4"
    unfolding p by (simp add: n length_le32)
  have 2: "take (strlen iovar) (set_iovar_payload iovar v) = ?n"
    unfolding p by (simp add: n)
  have 3: "set_iovar_payload iovar v ! strlen iovar = 0"
    unfolding p by (simp add: n nth_append)
  have 4: "drop (strlen iovar + 1) (set_iovar_payload iovar v) = le32 v"
    unfolding p by (simp add: n)
  have 5: "load_le32 (drop (strlen iovar + 1) (set_iovar_payload iovar v)) = v"
    unfolding 4 using load_le32_le32 [of v "[]"] by simp
  have 6: "drop 20 (req_vendor_data req) = set_iovar_payload iovar v"
    if "set_iovar_call env ifindex iovar v = Some (ret, resp, Some req)"
    unfolding set_call_req [OF that]
    by (simp add: vendor_blob_def length_pack_hdr 1)
  from 1 2 3 4 5 6 le32_value [of v] show ?thesis by blast
qed

theorem set_iovar_payload_layout_witness:
  "set_iovar_call (env_with [[EvAck]]) 3 ''btc_mode'' 4 =
     Some (0, \<lparr>resp_data = None, resp_len = 0, resp_error = 0\<rparr>,
       Some \<lparr>req_ifindex = 3, req_vendor_id = 0x1018, req_vendor_subcmd = 1,
         req_vendor_data = [7, 1, 0, 0, 13, 0, 0, 0, 20, 0, 0, 0, 1, 0, 0, 0, 0, 0, 0, 0,
                            0x62, 0x74, 0x63, 0x5f, 0x6d, 0x6f, 0x64, 0x65, 0, 4, 0, 0, 0]\<rparr>)
   \<and> set_iovar_payload ''btc_mode'' 4
       = [0x62, 0x74, 0x63, 0x5f, 0x6d, 0x6f, 0x64, 0x65, 0, 4, 0, 0, 0]
   \<and> length (set_iovar_payload ''btc_mode'' 4) = 13"
  using ack_only_set
    set_iovar_payload_layout [of "''btc_mode''" 4 "env_with [[EvAck]]" 3 0
      "\<lparr>resp_data = None, resp_len = 0, resp_error = 0\<rparr>"
      "\<lparr>req_ifindex = 3, req_vendor_id = 0x1018, req_vendor_subcmd = 1,
         req_vendor_data = [7, 1, 0, 0, 13, 0, 0, 0, 20, 0, 0, 0, 1, 0, 0, 0, 0, 0, 0, 0,
                            0x62, 0x74, 0x63, 0x5f, 0x6d, 0x6f, 0x64, 0x65, 0, 4, 0, 0, 0]\<rparr>"]
  by (simp add: strlen_btc_mode)

text \<open>
  C7 as the code has it. For \<^verbatim>\<open>set_iovar_int\<close> of \<open>btc_mode\<close> and 4 the request
  that is sent is the header with cmd 263, len 13, offset 20, set 1 and magic 0, then the
  9 bytes of the name with its terminator, then 04 00 00 00. The len field is the length of
  the payload, 13.
\<close>

theorem set_btc_mode_request:
  "set_iovar_call env ifindex ''btc_mode'' 4 = Some (ret, resp, Some req) \<Longrightarrow>
     req_vendor_data req =
       pack_hdr \<lparr>hdr_cmd = 263, hdr_len = 13, hdr_offset = 20, hdr_set = 1, hdr_magic = 0\<rparr>
       @ c_string ''btc_mode'' @ [4, 0, 0, 0]
     \<and> length (c_string ''btc_mode'') = 9"
  by (simp add: set_call_req vendor_blob_def make_hdr_def sizeof_hdr_def strlen_btc_mode
      set_iovar_payload_def c_string_btc_mode BRCMF_C_SET_VAR_def) (simp add: le32_def)

theorem set_btc_mode_request_witness:
  "set_iovar_call (env_with [[EvAck]]) 3 ''btc_mode'' 4 =
     Some (0, \<lparr>resp_data = None, resp_len = 0, resp_error = 0\<rparr>,
       Some \<lparr>req_ifindex = 3, req_vendor_id = 0x1018, req_vendor_subcmd = 1,
         req_vendor_data = [7, 1, 0, 0, 13, 0, 0, 0, 20, 0, 0, 0, 1, 0, 0, 0, 0, 0, 0, 0,
                            0x62, 0x74, 0x63, 0x5f, 0x6d, 0x6f, 0x64, 0x65, 0, 4, 0, 0, 0]\<rparr>)
   \<and> [7, 1, 0, 0, 13, 0, 0, 0, 20, 0, 0, 0, 1, 0, 0, 0, 0, 0, 0, 0,
       0x62, 0x74, 0x63, 0x5f, 0x6d, 0x6f, 0x64, 0x65, 0, 4, 0, 0, 0]
      = pack_hdr \<lparr>hdr_cmd = 263, hdr_len = 13, hdr_offset = 20, hdr_set = 1, hdr_magic = 0\<rparr>
        @ c_string ''btc_mode'' @ [4, 0, 0, 0]"
  using ack_only_set
    set_btc_mode_request [of "env_with [[EvAck]]" 3 0
      "\<lparr>resp_data = None, resp_len = 0, resp_error = 0\<rparr>"
      "\<lparr>req_ifindex = 3, req_vendor_id = 0x1018, req_vendor_subcmd = 1,
         req_vendor_data = [7, 1, 0, 0, 13, 0, 0, 0, 20, 0, 0, 0, 1, 0, 0, 0, 0, 0, 0, 0,
                            0x62, 0x74, 0x63, 0x5f, 0x6d, 0x6f, 0x64, 0x65, 0, 4, 0, 0, 0]\<rparr>"]
  by simp

text \<open>
  C7 as the spec has it fails: in a run where every step succeeds and the kernel
  acknowledges, the header that is sent is not the one with len 29.
\<close>

theorem set_btc_mode_len_not_29:
  "set_iovar_call (env_with [[EvAck]]) 3 ''btc_mode'' 4 \<noteq> None
   \<and> take 20 (req_vendor_data
        (the (snd (snd (the (set_iovar_call (env_with [[EvAck]]) 3 ''btc_mode'' 4))))))
      \<noteq> pack_hdr \<lparr>hdr_cmd = 263, hdr_len = 29, hdr_offset = 20, hdr_set = 1, hdr_magic = 0\<rparr>"
  by (simp add: ack_only_set pack_hdr_def le32_def)

subsection \<open>The requested return length of a read\<close>

lemma sint_get_ret_len:
  assumes "n + 4 < 2 ^ 31"
  shows "sint (get_ret_len n) = (if n > 256 then int n + 4 else 256)"
proof -
  have "sint (word_of_nat (n + 4) :: u32) = signed_take_bit 31 (int (n + 4))"
    by (simp only: signed_of_nat) simp
  also have "\<dots> = int (n + 4)"
    using assms by (intro signed_take_bit_int_eq_self) auto
  finally show ?thesis by (simp add: get_ret_len_def)
qed

text \<open>
  C5. For every name that \<^verbatim>\<open>get_iovar_int\<close> can be called with (an argument string, at
  most \<open>MAX_ARG_STRLEN\<close> bytes with its terminator), and more generally for every name
  with \<open>strlen iovar + 5 < 2 ^ 31\<close>, the return length it requests is at least 256 and at
  least the length of the name with its terminator: it is 256 for a name block of up to
  256 bytes and the length of the name block plus 4 beyond. It is the len field of the
  request; for \<open>btc_mode\<close> it is 256.
\<close>

theorem get_ret_len_bounds:
  "(strlen iovar + 1 \<le> MAX_ARG_STRLEN \<longrightarrow>
      256 \<le> sint (get_ret_len (strlen iovar + 1))
      \<and> int (strlen iovar + 1) \<le> sint (get_ret_len (strlen iovar + 1)))
   \<and> (strlen iovar + 5 < 2 ^ 31 \<longrightarrow>
      256 \<le> sint (get_ret_len (strlen iovar + 1))
      \<and> int (strlen iovar + 1) \<le> sint (get_ret_len (strlen iovar + 1))
      \<and> sint (get_ret_len (strlen iovar + 1))
          = (if strlen iovar + 1 > 256 then int (strlen iovar + 1) + 4 else 256))
   \<and> (get_iovar_call env ifindex iovar = Some (ret, resp, Some req) \<longrightarrow>
        load_le32 (drop 4 (req_vendor_data req)) = get_ret_len (strlen iovar + 1))
   \<and> get_ret_len (strlen ''btc_mode'' + 1) = 256"
proof -
  have a: "256 \<le> sint (get_ret_len (strlen iovar + 1))
      \<and> int (strlen iovar + 1) \<le> sint (get_ret_len (strlen iovar + 1))
      \<and> sint (get_ret_len (strlen iovar + 1))
          = (if strlen iovar + 1 > 256 then int (strlen iovar + 1) + 4 else 256)"
    if "strlen iovar + 5 < 2 ^ 31"
  proof -
    from that have "strlen iovar + 1 + 4 < 2 ^ 31" by simp
    from sint_get_ret_len [OF this] show ?thesis by simp
  qed
  have a': "256 \<le> sint (get_ret_len (strlen iovar + 1))
      \<and> int (strlen iovar + 1) \<le> sint (get_ret_len (strlen iovar + 1))"
    if "strlen iovar + 1 \<le> MAX_ARG_STRLEN"
  proof -
    from that have "strlen iovar + 5 < 2 ^ 31" by (simp add: MAX_ARG_STRLEN_def)
    from a [OF this] show ?thesis by simp
  qed
  have b: "load_le32 (drop 4 (req_vendor_data req)) = get_ret_len (strlen iovar + 1)"
    if "get_iovar_call env ifindex iovar = Some (ret, resp, Some req)"
    unfolding get_call_req [OF that] by (rule blob_len)
  have c: "get_ret_len (strlen ''btc_mode'' + 1) = 256"
    by (simp add: strlen_btc_mode get_ret_len_def)
  from a a' b c show ?thesis by blast
qed

theorem get_ret_len_bounds_witness:
  "strlen (replicate 300 CHR ''a'') + 1 \<le> MAX_ARG_STRLEN
   \<and> strlen (replicate 300 CHR ''a'') + 5 < (2::nat) ^ 31
   \<and> strlen (replicate 300 CHR ''a'') + 1 = 301
   \<and> sint (get_ret_len (strlen (replicate 300 CHR ''a'') + 1)) = 305
   \<and> strlen ''btc_mode'' + 1 \<le> MAX_ARG_STRLEN
   \<and> strlen ''btc_mode'' + 5 < (2::nat) ^ 31
   \<and> 256 \<le> sint (get_ret_len (strlen ''btc_mode'' + 1))
   \<and> int (strlen ''btc_mode'' + 1) \<le> sint (get_ret_len (strlen ''btc_mode'' + 1))
   \<and> get_iovar_call (env_with [[EvAck]]) 3 ''btc_mode'' =
     Some (0, \<lparr>resp_data = None, resp_len = 0, resp_error = 0\<rparr>,
       Some \<lparr>req_ifindex = 3, req_vendor_id = 0x1018, req_vendor_subcmd = 1,
         req_vendor_data = [6, 1, 0, 0, 0, 1, 0, 0, 20, 0, 0, 0, 0, 0, 0, 0, 0, 0, 0, 0,
                            0x62, 0x74, 0x63, 0x5f, 0x6d, 0x6f, 0x64, 0x65, 0]\<rparr>)
   \<and> load_le32 (drop 4 [6, 1, 0, 0, 0, 1, 0, 0, 20, 0, 0, 0, 0, 0, 0, 0, 0, 0, 0, 0,
                          0x62, 0x74, 0x63, 0x5f, 0x6d, 0x6f, 0x64, 0x65, 0])
       = get_ret_len (strlen ''btc_mode'' + 1)"
proof -
  have l: "strlen (replicate 300 CHR ''a'') = 300"
    by (simp add: strlen_replicate)
  have h1: "strlen (replicate 300 CHR ''a'') + 1 \<le> MAX_ARG_STRLEN"
    by (simp add: l MAX_ARG_STRLEN_def)
  have h2: "strlen (replicate 300 CHR ''a'') + 5 < (2::nat) ^ 31"
    by (simp add: l)
  have h3: "strlen ''btc_mode'' + 1 \<le> MAX_ARG_STRLEN"
    by (simp add: strlen_btc_mode MAX_ARG_STRLEN_def)
  have h4: "strlen ''btc_mode'' + 5 < (2::nat) ^ 31"
    by (simp add: strlen_btc_mode)
  from h1 h2 h3 h4 ack_only_get
    get_ret_len_bounds [THEN conjunct1, rule_format, OF h1]
    get_ret_len_bounds [THEN conjunct2, THEN conjunct1, rule_format, OF h2]
    get_ret_len_bounds [THEN conjunct1, rule_format, OF h3]
    get_ret_len_bounds [THEN conjunct2, THEN conjunct1, rule_format, OF h4]
    get_ret_len_bounds [THEN conjunct2, THEN conjunct2, THEN conjunct1, rule_format,
      OF ack_only_get]
  show ?thesis
    by (simp add: l strlen_btc_mode)
qed

text \<open>
  The bound on the name is needed: the len field is an \<^verbatim>\<open>int32_t\<close>, and for a name of
  2147483643 characters, which no argument string reaches, the length of the name block
  plus 4 is 2147483648 and the conversion gives -2147483648.
\<close>

lemma get_ret_len_beyond_int32:
  "sint (get_ret_len (strlen (replicate 2147483643 CHR ''a'') + 1)) = - 2147483648
   \<and> strlen (replicate 2147483643 CHR ''a'') + 1 = 2147483644"
  by (simp add: strlen_replicate get_ret_len_def)

subsection \<open>The valid-message handler\<close>

text \<open>The loop over the nested attributes acts on the first data sub-attribute alone.\<close>

lemma scan_nested_find:
  "scan_nested ok nested resp =
     (case find (\<lambda>a. nla_type a = BRCMF_NLATTR_DATA) nested of
        None \<Rightarrow> resp
      | Some a \<Rightarrow>
          if ok then resp\<lparr>resp_len := length (nla_data a), resp_data := Some (nla_data a)\<rparr>
          else resp\<lparr>resp_len := length (nla_data a), resp_data := None, resp_error := - ENOMEM\<rparr>)"
  by (induction nested) (simp_all add: Let_def)

lemma find_first_data:
  assumes "\<forall>b \<in> set pre. nla_type b \<noteq> BRCMF_NLATTR_DATA" and "nla_type a = BRCMF_NLATTR_DATA"
  shows "find (\<lambda>a. nla_type a = BRCMF_NLATTR_DATA) (pre @ a # post) = Some a"
  using assms by (induction pre) simp_all

text \<open>
  C9. When \<open>a\<close> is the first data sub-attribute of the nested vendor data, the handler
  records the length of \<open>a\<close> and copies the bytes of \<open>a\<close>; whatever follows \<open>a\<close>, further
  data sub-attributes included, changes nothing in the result.
\<close>

theorem response_handler_first_data:
  assumes "\<forall>b \<in> set pre. nla_type b \<noteq> BRCMF_NLATTR_DATA" and "nla_type a = BRCMF_NLATTR_DATA"
  shows "response_handler True \<lparr>attr_vendor_data = Some (pre @ a # post)\<rparr> resp
           = (NL_SKIP, resp\<lparr>resp_len := length (nla_data a), resp_data := Some (nla_data a)\<rparr>)
         \<and> response_handler malloc_ok \<lparr>attr_vendor_data = Some (pre @ a # post)\<rparr> resp
           = response_handler malloc_ok \<lparr>attr_vendor_data = Some (pre @ [a])\<rparr> resp"
  using find_first_data [OF assms, of post] find_first_data [OF assms, of "[]"]
  by (simp add: response_handler_def scan_nested_find)

theorem response_handler_first_data_witness:
  "nla_type (Nlattr BRCMF_NLATTR_LEN [4, 0, 0, 0]) \<noteq> BRCMF_NLATTR_DATA
   \<and> nla_type (Nlattr BRCMF_NLATTR_DATA [1, 2, 3, 4]) = BRCMF_NLATTR_DATA
   \<and> response_handler True
        \<lparr>attr_vendor_data = Some [Nlattr BRCMF_NLATTR_LEN [4, 0, 0, 0],
           Nlattr BRCMF_NLATTR_DATA [1, 2, 3, 4], Nlattr BRCMF_NLATTR_DATA [9, 9]]\<rparr> resp_init
      = (NL_SKIP, \<lparr>resp_data = Some [1, 2, 3, 4], resp_len = 4, resp_error = - EINPROGRESS\<rparr>)"
proof -
  have h1: "\<forall>b \<in> set [Nlattr BRCMF_NLATTR_LEN [4, 0, 0, 0]]. nla_type b \<noteq> BRCMF_NLATTR_DATA"
    by (simp add: BRCMF_NLATTR_LEN_def BRCMF_NLATTR_DATA_def)
  have h2: "nla_type (Nlattr BRCMF_NLATTR_DATA [1, 2, 3, 4]) = BRCMF_NLATTR_DATA"
    by simp
  show ?thesis
    using h1 h2
      response_handler_first_data [OF h1 h2, of "[Nlattr BRCMF_NLATTR_DATA [9, 9]]" resp_init True]
    by (simp add: resp_init_def)
qed

subsection \<open>The buffer has the recorded length\<close>








subsection \<open>Decoding the response of a read\<close>










text \<open>
  C10. When the transport returns 0 and no buffer was delivered, \<^verbatim>\<open>get_iovar_int\<close> returns
  \<open>-ENODATA\<close> and writes no value.
\<close>

theorem get_without_buffer_is_enodata:
  "get_iovar_call env ifindex iovar = Some (0, resp, req) \<Longrightarrow> resp_data resp = None \<Longrightarrow>
     get_iovar_int env ifindex iovar = Returns (- ENODATA, None)"
  by (simp add: get_iovar_int_def)

theorem get_without_buffer_is_enodata_witness:
  "get_iovar_call (env_with [[EvAck]]) 3 ''btc_mode'' =
     Some (0, \<lparr>resp_data = None, resp_len = 0, resp_error = 0\<rparr>,
       Some \<lparr>req_ifindex = 3, req_vendor_id = 0x1018, req_vendor_subcmd = 1,
         req_vendor_data = [6, 1, 0, 0, 0, 1, 0, 0, 20, 0, 0, 0, 0, 0, 0, 0, 0, 0, 0, 0,
                            0x62, 0x74, 0x63, 0x5f, 0x6d, 0x6f, 0x64, 0x65, 0]\<rparr>)
   \<and> get_iovar_int (env_with [[EvAck]]) 3 ''btc_mode'' = Returns (- ENODATA, None)"
  using ack_only_get get_without_buffer_is_enodata [OF ack_only_get]
  by simp

subsection \<open>The receive cycle\<close>

lemma recv_loop_done: "resp_error resp \<noteq> - EINPROGRESS \<Longrightarrow> recv_loop ps resp = Some resp"
  by (cases ps) simp_all

lemma recv_loop_step:
  "resp_error resp = - EINPROGRESS \<Longrightarrow>
     recv_loop (p # ps) resp = recv_loop ps (nl_recvmsgs p resp)"
  by simp

lemma recv_loop_not_in_progress:
  "recv_loop ps resp = Some resp' \<Longrightarrow> resp_error resp' \<noteq> - EINPROGRESS"
  by (induction ps arbitrary: resp) (auto split: if_splits)

lemma dispatch_data:
  "resp_data (snd (dispatch e resp))
     = (case delivered e of None \<Rightarrow> resp_data resp | Some buf \<Rightarrow> buf)"
proof (cases e)
  case (EvValid msg ok)
  show ?thesis
    unfolding EvValid
    by (cases "attr_vendor_data msg")
       (simp_all add: response_handler_def scan_nested_find split: option.splits)
qed (simp_all add: error_handler_def finish_handler_def ack_handler_def)

lemma pump_data:
  "resp_data (nl_recvmsgs p resp) = buffer_after (handled_in_pump p resp) (resp_data resp)"
proof (induction p arbitrary: resp)
  case Nil
  show ?case by simp
next
  case (Cons e es)
  obtain act resp' where d: "dispatch e resp = (act, resp')" by (cases "dispatch e resp")
  from dispatch_data [of e resp] d
  have b: "resp_data resp' = (case delivered e of None \<Rightarrow> resp_data resp | Some buf \<Rightarrow> buf)"
    by simp
  show ?case
    by (cases act) (simp_all add: d b Cons.IH)
qed

lemma buffer_after_append:
  "buffer_after (xs @ ys) buf = buffer_after ys (buffer_after xs buf)"
  by (induction xs arbitrary: buf) simp_all

lemma recv_loop_data:
  "recv_loop ps resp = Some resp' \<Longrightarrow>
     resp_data resp' = buffer_after (handled ps resp) (resp_data resp)"
proof (induction ps arbitrary: resp)
  case Nil
  then show ?case by (simp split: if_splits)
next
  case (Cons p ps)
  show ?case
  proof (cases "resp_error resp = - EINPROGRESS")
    case True
    with Cons.prems have "recv_loop ps (nl_recvmsgs p resp) = Some resp'" by simp
    from Cons.IH [OF this] True show ?thesis
      by (simp add: buffer_after_append pump_data)
  next
    case False
    with Cons.prems show ?thesis by simp
  qed
qed

text \<open>An acknowledgement that arrives alone ends the loop, if nothing ended it before.\<close>

lemma recv_loop_ack: "[EvAck] \<in> set ps \<Longrightarrow> recv_loop ps resp \<noteq> None"
proof (induction ps arbitrary: resp)
  case Nil
  then show ?case by simp
next
  case (Cons p ps)
  show ?case
  proof (cases "resp_error resp = - EINPROGRESS")
    case False
    then show ?thesis by simp
  next
    case True
    show ?thesis
    proof (cases "p = [EvAck]")
      case True
      have "resp_error (nl_recvmsgs [EvAck] resp) \<noteq> - EINPROGRESS"
        by (simp add: ack_handler_def EINPROGRESS_def)
      from recv_loop_done [OF this] \<open>resp_error resp = - EINPROGRESS\<close> True
      show ?thesis by simp
    next
      case False
      with Cons.prems have "[EvAck] \<in> set ps" by simp
      from Cons.IH [OF this] \<open>resp_error resp = - EINPROGRESS\<close> show ?thesis by simp
    qed
  qed
qed

lemma send_ready:
  "transport_ready env \<Longrightarrow>
     send_vendor_cmd env ifindex cmd is_set payload payload_len ret_len =
       (case recv_loop (pumps env) resp_init of
          None \<Rightarrow> None
        | Some resp \<Rightarrow> Some (resp_error resp, resp,
            Some \<lparr>req_ifindex = word_of_int ifindex, req_vendor_id = BROADCOM_OUI,
                  req_vendor_subcmd = BRCMF_VNDR_CMDS_DCMD,
                  req_vendor_data = vendor_blob cmd is_set payload payload_len ret_len\<rparr>))"
  by (simp add: send_vendor_cmd_def transport_ready_def Let_def)

lemma send_not_ready:
  "\<not> transport_ready env \<Longrightarrow>
     \<exists>ret req. send_vendor_cmd env ifindex cmd is_set payload payload_len ret_len
        = Some (ret, resp_init, req) \<and> ret < 0"
  by (auto simp add: send_vendor_cmd_def transport_ready_def Let_def ENOMEM_def)

lemma oom_ends_loop:
  assumes "resp_error resp = - EINPROGRESS"
    and "find (\<lambda>a. nla_type a = BRCMF_NLATTR_DATA) nested = Some a"
  shows "recv_loop ([EvValid \<lparr>attr_vendor_data = Some nested\<rparr> False] # later) resp
     = Some (resp\<lparr>resp_len := length (nla_data a), resp_data := None, resp_error := - ENOMEM\<rparr>)"
proof -
  let ?r = "resp\<lparr>resp_len := length (nla_data a), resp_data := None, resp_error := - ENOMEM\<rparr>"
  have 1: "nl_recvmsgs [EvValid \<lparr>attr_vendor_data = Some nested\<rparr> False] resp = ?r"
    by (simp add: response_handler_def scan_nested_find assms(2))
  have "resp_error ?r \<noteq> - EINPROGRESS"
    by (simp add: ENOMEM_def EINPROGRESS_def)
  from recv_loop_done [OF this, of later] have 2: "recv_loop later ?r = Some ?r" .
  show ?thesis
    unfolding recv_loop_step [OF assms(1)] 1 2 ..
qed

text \<open>
  C1 as the code has it. The ack handler sets the error code to zero whatever the state
  holds, and leaves buffer and length as they are. An out-of-memory error recorded by a
  valid message survives when that message is the only one its call of \<^verbatim>\<open>nl_recvmsgs\<close>
  handles: the loop ends there with \<open>-ENOMEM\<close>, which \<^verbatim>\<open>send_vendor_cmd\<close> returns, and
  nothing that arrives later, an acknowledgement included, is handled.
\<close>

theorem ack_handler_unconditional:
  "resp_error (snd (ack_handler resp)) = 0
   \<and> resp_data (snd (ack_handler resp)) = resp_data resp
   \<and> resp_len (snd (ack_handler resp)) = resp_len resp
   \<and> (resp_error resp = - EINPROGRESS
        \<and> find (\<lambda>a. nla_type a = BRCMF_NLATTR_DATA) nested = Some a \<longrightarrow>
      recv_loop ([EvValid \<lparr>attr_vendor_data = Some nested\<rparr> False] # later) resp
        = Some (resp\<lparr>resp_len := length (nla_data a), resp_data := None,
                    resp_error := - ENOMEM\<rparr>))
   \<and> (transport_ready env
        \<and> pumps env = [EvValid \<lparr>attr_vendor_data = Some nested\<rparr> False] # later
        \<and> find (\<lambda>a. nla_type a = BRCMF_NLATTR_DATA) nested = Some a \<longrightarrow>
      send_vendor_cmd env ifindex cmd is_set payload payload_len ret_len =
        Some (- ENOMEM,
          \<lparr>resp_data = None, resp_len = length (nla_data a), resp_error = - ENOMEM\<rparr>,
          Some \<lparr>req_ifindex = word_of_int ifindex, req_vendor_id = BROADCOM_OUI,
                req_vendor_subcmd = BRCMF_VNDR_CMDS_DCMD,
                req_vendor_data = vendor_blob cmd is_set payload payload_len ret_len\<rparr>))"
proof -
  have oom: "send_vendor_cmd env ifindex cmd is_set payload payload_len ret_len =
        Some (- ENOMEM,
          \<lparr>resp_data = None, resp_len = length (nla_data a), resp_error = - ENOMEM\<rparr>,
          Some \<lparr>req_ifindex = word_of_int ifindex, req_vendor_id = BROADCOM_OUI,
                req_vendor_subcmd = BRCMF_VNDR_CMDS_DCMD,
                req_vendor_data = vendor_blob cmd is_set payload payload_len ret_len\<rparr>)"
    if r: "transport_ready env"
      and p: "pumps env = [EvValid \<lparr>attr_vendor_data = Some nested\<rparr> False] # later"
      and f: "find (\<lambda>a. nla_type a = BRCMF_NLATTR_DATA) nested = Some a"
  proof -
    have "resp_error resp_init = - EINPROGRESS"
      by (simp add: resp_init_def)
    from oom_ends_loop [OF this f, of later]
    have "recv_loop (pumps env) resp_init
        = Some \<lparr>resp_data = None, resp_len = length (nla_data a), resp_error = - ENOMEM\<rparr>"
      unfolding p by (simp add: resp_init_def)
    then show ?thesis
      unfolding send_ready [OF r] by simp
  qed
  from oom oom_ends_loop [of resp nested a later] show ?thesis
    by (simp add: ack_handler_def)
qed

theorem ack_handler_unconditional_witness:
  "transport_ready
     (env_with [[EvValid \<lparr>attr_vendor_data = Some [Nlattr 2 [1, 2, 3, 4]]\<rparr> False], [EvAck]])
   \<and> resp_error resp_init = - EINPROGRESS
   \<and> recv_loop [[EvValid \<lparr>attr_vendor_data = Some [Nlattr 2 [1, 2, 3, 4]]\<rparr> False], [EvAck]]
        resp_init
      = Some \<lparr>resp_data = None, resp_len = 4, resp_error = - ENOMEM\<rparr>
   \<and> send_vendor_cmd
        (env_with [[EvValid \<lparr>attr_vendor_data = Some [Nlattr 2 [1, 2, 3, 4]]\<rparr> False], [EvAck]])
        3 BRCMF_C_GET_VAR 0 (c_string ''btc_mode'') 9 256
      = Some (- ENOMEM, \<lparr>resp_data = None, resp_len = 4, resp_error = - ENOMEM\<rparr>,
          Some \<lparr>req_ifindex = 3, req_vendor_id = BROADCOM_OUI,
                req_vendor_subcmd = BRCMF_VNDR_CMDS_DCMD,
                req_vendor_data = vendor_blob BRCMF_C_GET_VAR 0 (c_string ''btc_mode'') 9 256\<rparr>)"
proof -
  let ?env =
    "env_with [[EvValid \<lparr>attr_vendor_data = Some [Nlattr 2 [1, 2, 3, 4]]\<rparr> False], [EvAck]]"
  have h: "transport_ready ?env
      \<and> pumps ?env = [EvValid \<lparr>attr_vendor_data = Some [Nlattr 2 [1, 2, 3, 4]]\<rparr> False] # [[EvAck]]
      \<and> find (\<lambda>a. nla_type a = BRCMF_NLATTR_DATA) [Nlattr 2 [1, 2, 3, 4]]
          = Some (Nlattr 2 [1, 2, 3, 4])"
    by (simp add: transport_ready_def env_with_def BRCMF_NLATTR_DATA_def)
  have g: "resp_error resp_init = - EINPROGRESS
      \<and> find (\<lambda>a. nla_type a = BRCMF_NLATTR_DATA) [Nlattr 2 [1, 2, 3, 4]]
          = Some (Nlattr 2 [1, 2, 3, 4])"
    by (simp add: resp_init_def BRCMF_NLATTR_DATA_def)
  from h g
    ack_handler_unconditional [THEN conjunct2, THEN conjunct2, THEN conjunct2, THEN conjunct1,
      rule_format, OF g, of "[[EvAck]]"]
    ack_handler_unconditional [THEN conjunct2, THEN conjunct2, THEN conjunct2, THEN conjunct2,
      rule_format, OF h, of 3 BRCMF_C_GET_VAR 0 "c_string ''btc_mode''" 9 256]
  show ?thesis by (simp add: resp_init_def)
qed

text \<open>
  C1 as the spec has it fails. A valid message with a data sub-attribute whose allocation
  fails records \<open>-ENOMEM\<close>; the ack handler run on that state sets the error code to zero;
  and when both messages are handled by one call of \<^verbatim>\<open>nl_recvmsgs\<close>, \<^verbatim>\<open>send_vendor_cmd\<close>
  returns 0 with no buffer.
\<close>

theorem ack_overwrites_enomem:
  "resp_error (snd (response_handler False (data_msg [1, 2, 3, 4]) resp_init)) = - ENOMEM
   \<and> resp_error (snd (ack_handler (snd (response_handler False (data_msg [1, 2, 3, 4])
        resp_init)))) = 0
   \<and> send_vendor_cmd (env_with [[EvValid (data_msg [1, 2, 3, 4]) False, EvAck]])
        3 BRCMF_C_GET_VAR 0 (c_string ''btc_mode'') 9 256
      = Some (0, \<lparr>resp_data = None, resp_len = 4, resp_error = 0\<rparr>,
          Some \<lparr>req_ifindex = 3, req_vendor_id = BROADCOM_OUI,
                req_vendor_subcmd = BRCMF_VNDR_CMDS_DCMD,
                req_vendor_data = vendor_blob BRCMF_C_GET_VAR 0 (c_string ''btc_mode'') 9 256\<rparr>)"
  by (simp add: send_vendor_cmd_def env_with_def resp_init_def response_handler_def data_msg_def
      ack_handler_def EINPROGRESS_def)

text \<open>
  C2 as the code has it. A call that returns returns one code. When a step before the
  receive loop fails, the code is negative and the response state is the initial one, with
  no buffer. Otherwise the code is the error code of the response state, which is no longer
  the in-progress marker, and the buffer is the one left by the last handled valid message
  that carried a data sub-attribute: its bytes when the allocation succeeded, absent when
  it failed or when no such message was handled. This holds whether the code is zero or not.
  The call returns whenever a step before the loop fails or an acknowledgement arrives
  alone in one call of \<^verbatim>\<open>nl_recvmsgs\<close>.
\<close>

theorem send_vendor_cmd_outcome:
  "(send_vendor_cmd env ifindex cmd is_set payload payload_len ret_len = Some (ret, resp, req) \<longrightarrow>
      (if transport_ready env
       then ret = resp_error resp \<and> ret \<noteq> - EINPROGRESS
            \<and> resp_data resp = buffer_after (handled (pumps env) resp_init) None
       else ret < 0 \<and> resp = resp_init))
   \<and> (\<not> transport_ready env \<or> [EvAck] \<in> set (pumps env) \<longrightarrow>
        send_vendor_cmd env ifindex cmd is_set payload payload_len ret_len \<noteq> None)"
proof -
  have a: "ret = resp_error resp \<and> ret \<noteq> - EINPROGRESS
            \<and> resp_data resp = buffer_after (handled (pumps env) resp_init) None"
    if s: "send_vendor_cmd env ifindex cmd is_set payload payload_len ret_len = Some (ret, resp, req)"
      and r: "transport_ready env"
  proof -
    from s have l: "recv_loop (pumps env) resp_init = Some resp" and e: "ret = resp_error resp"
      unfolding send_ready [OF r] by (auto split: option.splits)
    from recv_loop_data [OF l] recv_loop_not_in_progress [OF l] e show ?thesis
      by (simp add: resp_init_def)
  qed
  have b: "ret < 0 \<and> resp = resp_init"
    if s: "send_vendor_cmd env ifindex cmd is_set payload payload_len ret_len = Some (ret, resp, req)"
      and r: "\<not> transport_ready env"
    using send_not_ready [OF r, of ifindex cmd is_set payload payload_len ret_len] s by auto
  have c: "send_vendor_cmd env ifindex cmd is_set payload payload_len ret_len \<noteq> None"
    if "\<not> transport_ready env \<or> [EvAck] \<in> set (pumps env)"
  proof (cases "transport_ready env")
    case True
    with that have "[EvAck] \<in> set (pumps env)" by simp
    from recv_loop_ack [OF this, of resp_init] show ?thesis
      unfolding send_ready [OF True] by (auto split: option.splits)
  next
    case False
    from send_not_ready [OF False, of ifindex cmd is_set payload payload_len ret_len]
    show ?thesis by auto
  qed
  from a b c show ?thesis by auto
qed

theorem send_vendor_cmd_outcome_witness:
  "send_vendor_cmd (env_with [[EvValid (data_msg [1, 2, 3, 4]) True], [EvError (- 13)]])
        3 BRCMF_C_GET_VAR 0 (c_string ''btc_mode'') 9 256
      = Some (- 13, \<lparr>resp_data = Some [1, 2, 3, 4], resp_len = 4, resp_error = - 13\<rparr>,
          Some \<lparr>req_ifindex = 3, req_vendor_id = BROADCOM_OUI,
                req_vendor_subcmd = BRCMF_VNDR_CMDS_DCMD,
                req_vendor_data = vendor_blob BRCMF_C_GET_VAR 0 (c_string ''btc_mode'') 9 256\<rparr>)
   \<and> transport_ready (env_with [[EvValid (data_msg [1, 2, 3, 4]) True], [EvError (- 13)]])
   \<and> buffer_after
        (handled (pumps (env_with [[EvValid (data_msg [1, 2, 3, 4]) True], [EvError (- 13)]]))
           resp_init) None
       = Some [1, 2, 3, 4]
   \<and> [EvAck] \<in> set (pumps (env_with [[EvAck]]))
   \<and> send_vendor_cmd (env_with [[EvAck]]) 3 BRCMF_C_GET_VAR 0 (c_string ''btc_mode'') 9 256
       \<noteq> None"
proof -
  let ?env = "env_with [[EvValid (data_msg [1, 2, 3, 4]) True], [EvError (- 13)]]"
  have s: "send_vendor_cmd ?env 3 BRCMF_C_GET_VAR 0 (c_string ''btc_mode'') 9 256
      = Some (- 13, \<lparr>resp_data = Some [1, 2, 3, 4], resp_len = 4, resp_error = - 13\<rparr>,
          Some \<lparr>req_ifindex = 3, req_vendor_id = BROADCOM_OUI,
                req_vendor_subcmd = BRCMF_VNDR_CMDS_DCMD,
                req_vendor_data = vendor_blob BRCMF_C_GET_VAR 0 (c_string ''btc_mode'') 9 256\<rparr>)"
    by (simp add: send_vendor_cmd_def env_with_def resp_init_def response_handler_def data_msg_def
      ack_handler_def error_handler_def EINPROGRESS_def)
  have r: "transport_ready ?env"
    by (simp add: transport_ready_def env_with_def)
  have k: "\<not> transport_ready (env_with [[EvAck]]) \<or> [EvAck] \<in> set (pumps (env_with [[EvAck]]))"
    by (simp add: env_with_def)
  from send_vendor_cmd_outcome [THEN conjunct1, rule_format, OF s] r
    send_vendor_cmd_outcome [THEN conjunct2, rule_format, OF k,
      of 3 BRCMF_C_GET_VAR 0 "c_string ''btc_mode''" 9 256]
    s k
  show ?thesis by (simp add: env_with_def)
qed

text \<open>
  C2 as the spec has it fails in both directions. A data message followed by an error
  message leaves a buffer although the call returns -13. A valid message whose vendor data
  holds no data sub-attribute, followed by an acknowledgement, leaves no buffer although a
  valid message was handled and the call returns 0.
\<close>

theorem buffer_without_success:
  "send_vendor_cmd (env_with [[EvValid (data_msg [1, 2, 3, 4]) True], [EvError (- 13)]])
        3 BRCMF_C_GET_VAR 0 (c_string ''btc_mode'') 9 256
      = Some (- 13, \<lparr>resp_data = Some [1, 2, 3, 4], resp_len = 4, resp_error = - 13\<rparr>,
          Some \<lparr>req_ifindex = 3, req_vendor_id = BROADCOM_OUI,
                req_vendor_subcmd = BRCMF_VNDR_CMDS_DCMD,
                req_vendor_data = vendor_blob BRCMF_C_GET_VAR 0 (c_string ''btc_mode'') 9 256\<rparr>)
   \<and> send_vendor_cmd
        (env_with [[EvValid \<lparr>attr_vendor_data = Some [Nlattr BRCMF_NLATTR_LEN [4, 0, 0, 0]]\<rparr>
           True], [EvAck]])
        3 BRCMF_C_GET_VAR 0 (c_string ''btc_mode'') 9 256
      = Some (0, \<lparr>resp_data = None, resp_len = 0, resp_error = 0\<rparr>,
          Some \<lparr>req_ifindex = 3, req_vendor_id = BROADCOM_OUI,
                req_vendor_subcmd = BRCMF_VNDR_CMDS_DCMD,
                req_vendor_data = vendor_blob BRCMF_C_GET_VAR 0 (c_string ''btc_mode'') 9 256\<rparr>)"
  by (simp add: send_vendor_cmd_def env_with_def resp_init_def response_handler_def data_msg_def
      ack_handler_def error_handler_def EINPROGRESS_def BRCMF_NLATTR_LEN_def
      BRCMF_NLATTR_DATA_def)

end
